theory Spec2Isabelle
  imports Main "HOL-Library.Word"
begin

section \<open>Python values\<close>

text \<open>
  A Python \<open>str\<close> is a sequence of Unicode code points; the source uses characters
  outside ASCII (the emoji of its messages), so a string is modelled as the list of its
  code points. \<open>ascii\<close> turns an ASCII literal into such a list.
\<close>

type_synonym pystr = "nat list"

definition ascii :: "string \<Rightarrow> pystr" where
  "ascii s = map of_char s"

text \<open>
  The values \<open>json.loads\<close> and \<open>response.json()\<close> can produce. A float is kept as its
  64 bits and never interpreted. A \<open>dict\<close> is an association list; \<open>dict_get\<close> reads
  the first binding of a key.
\<close>

datatype pyval =
    PyNone
  | PyBool bool
  | PyInt int
  | PyFloat "64 word"
  | PyStr pystr
  | PyList "pyval list"
  | PyDict "(pystr \<times> pyval) list"

datatype exn =
    JSONDecodeError
  | KeyError pystr
  | AttributeError
  | TypeError
  | OtherError pystr

definition dict_get :: "(pystr \<times> pyval) list \<Rightarrow> pystr \<Rightarrow> pyval option" where
  "dict_get d k = map_of d k"

subsection \<open>Formatting\<close>

text \<open>\<open>str(n)\<close> of an integer: its decimal digits, with a leading minus sign.\<close>

function str_nat :: "nat \<Rightarrow> pystr" where
  "str_nat n = (if n < 10 then [48 + n] else str_nat (n div 10) @ [48 + n mod 10])"
  by pat_completeness auto
termination
  by (relation "measure id") auto

definition str_int :: "int \<Rightarrow> pystr" where
  "str_int i = (if i < 0 then 45 # str_nat (nat (- i)) else str_nat (nat i))"

text \<open>
  \<open>str.isspace\<close> of one character, and \<open>str.strip()\<close> without argument, which removes
  the leading and the trailing whitespace.
\<close>

definition isspace :: "nat \<Rightarrow> bool" where
  "isspace c \<longleftrightarrow>
     (9 \<le> c \<and> c \<le> 13) \<or> (28 \<le> c \<and> c \<le> 32) \<or> c = 133 \<or> c = 160 \<or> c = 5760 \<or>
     (8192 \<le> c \<and> c \<le> 8202) \<or> c = 8232 \<or> c = 8233 \<or> c = 8239 \<or> c = 8287 \<or>
     c = 12288"

definition strip :: "pystr \<Rightarrow> pystr" where
  "strip s = rev (dropWhile isspace (rev (dropWhile isspace s)))"

text \<open>\<open>sep.join(xs)\<close>.\<close>

fun join :: "pystr \<Rightarrow> pystr list \<Rightarrow> pystr" where
  "join sep [] = []"
| "join sep [x] = x"
| "join sep (x # y # ys) = x @ sep @ join sep (y # ys)"

section \<open>The environment\<close>

text \<open>
  What the program reaches outside itself is a parameter of the model: the HTTP client,
  the process environment, the completion endpoint, and the part of the \<open>json\<close> parser that scans numbers, literals and
  nested containers (it returns the value and how many characters it has read after the
  first). The outside
  world has a state \<open>'w\<close> that every call may read and change, so two calls with the
  same argument need not answer the same. A call that raises returns \<open>Inl\<close>.
\<close>

record response =
  status_code :: int
  resp_text :: pystr
  json :: "exn + pyval"

record message =
  role :: pystr
  content :: pystr

record 'w env =
  requests_get :: "pystr \<Rightarrow> 'w \<Rightarrow> (exn + response) \<times> 'w"
  os_getenv :: "pystr \<Rightarrow> pystr option"
  float_repr :: "64 word \<Rightarrow> pystr"
  json_floatstr :: "64 word \<Rightarrow> pystr"
  container_repr :: "pyval \<Rightarrow> pystr"
  chat_completions_create :: "message list \<Rightarrow> 'w \<Rightarrow> (exn + pystr) \<times> 'w"
  scan_other :: "pystr \<Rightarrow> exn + pyval \<times> nat"

text \<open>
  What an f-string puts in place of \<open>{v}\<close>: \<open>str(v)\<close>. A string stands for itself;
  the text of a float, a list or a dict is left to the environment.
\<close>

fun py_str :: "('w, 'x) env_scheme \<Rightarrow> pyval \<Rightarrow> pystr" where
  "py_str E (PyStr s) = s"
| "py_str E PyNone = ascii ''None''"
| "py_str E (PyBool b) = (if b then ascii ''True'' else ascii ''False'')"
| "py_str E (PyInt i) = str_int i"
| "py_str E (PyFloat f) = float_repr E f"
| "py_str E (PyList xs) = container_repr E (PyList xs)"
| "py_str E (PyDict d) = container_repr E (PyDict d)"

section \<open>json.dumps\<close>

text \<open>
  \<open>json.dumps\<close> with its default arguments, after \<open>json/encoder.py\<close>: strings are
  written by \<open>py_encode_basestring_ascii\<close>, which keeps the printable ASCII characters,
  escapes the quote, the backslash and the control characters, and writes every other
  character as \<open>\\uXXXX\<close> (a character above \<open>0xFFFF\<close> as a surrogate pair); the item
  separator is a comma and a space, the key separator a colon and a space. The text of a
  float is left to the environment.
\<close>

definition hexdigit :: "nat \<Rightarrow> nat" where
  "hexdigit d = (if d < 10 then 48 + d else 87 + d)"

definition hex4 :: "nat \<Rightarrow> pystr" where
  "hex4 n = [hexdigit (n div 4096 mod 16), hexdigit (n div 256 mod 16),
             hexdigit (n div 16 mod 16), hexdigit (n mod 16)]"

definition escape_char :: "nat \<Rightarrow> pystr" where
  "escape_char c =
     (if c = 92 then [92, 92]
      else if c = 34 then [92, 34]
      else if c = 8 then [92, 98]
      else if c = 12 then [92, 102]
      else if c = 10 then [92, 110]
      else if c = 13 then [92, 114]
      else if c = 9 then [92, 116]
      else if 32 \<le> c \<and> c \<le> 126 then [c]
      else if c < 65536 then [92, 117] @ hex4 c
      else [92, 117] @ hex4 (55296 + (c - 65536) div 1024 mod 1024) @
           [92, 117] @ hex4 (56320 + (c - 65536) mod 1024))"

definition encode_basestring_ascii :: "pystr \<Rightarrow> pystr" where
  "encode_basestring_ascii s = [34] @ concat (map escape_char s) @ [34]"

fun json_dumps :: "('w, 'x) env_scheme \<Rightarrow> pyval \<Rightarrow> pystr" where
  "json_dumps E PyNone = ascii ''null''"
| "json_dumps E (PyBool b) = (if b then ascii ''true'' else ascii ''false'')"
| "json_dumps E (PyInt i) = str_int i"
| "json_dumps E (PyFloat f) = json_floatstr E f"
| "json_dumps E (PyStr s) = encode_basestring_ascii s"
| "json_dumps E (PyList xs) =
     ascii ''['' @ join (ascii '', '') (map (json_dumps E) xs) @ ascii '']''"
| "json_dumps E (PyDict d) =
     ascii ''{'' @
     join (ascii '', '')
       (map (\<lambda>(k, v). encode_basestring_ascii k @ ascii '': '' @ json_dumps E v) d) @
     ascii ''}''"

section \<open>json.loads\<close>

text \<open>
  \<open>json.loads\<close> with its default arguments, after \<open>json/decoder.py\<close> and
  \<open>json/scanner.py\<close>, on the remaining text instead of an index into it. Strings and
  objects are scanned here; a value of any other kind, and a container nested in an object,
  is scanned by the environment. Every \<open>\\uXXXX\<close> escape takes four hexadecimal digits,
  and a high surrogate escape followed by a low surrogate escape gives one character.
\<close>

definition hexval :: "nat \<Rightarrow> nat option" where
  "hexval c =
     (if 48 \<le> c \<and> c \<le> 57 then Some (c - 48)
      else if 97 \<le> c \<and> c \<le> 102 then Some (c - 87)
      else if 65 \<le> c \<and> c \<le> 70 then Some (c - 55)
      else None)"

fun decode_uXXXX :: "pystr \<Rightarrow> nat option" where
  "decode_uXXXX (a # b # c # d # rest) =
     (case (hexval a, hexval b, hexval c, hexval d) of
        (Some x, Some y, Some z, Some w) \<Rightarrow> Some (((x * 16 + y) * 16 + z) * 16 + w)
      | _ \<Rightarrow> None)"
| "decode_uXXXX xs = None"

definition backslash :: "nat \<Rightarrow> nat option" where
  "backslash e =
     (if e = 34 then Some 34 else if e = 92 then Some 92 else if e = 47 then Some 47
      else if e = 98 then Some 8 else if e = 102 then Some 12 else if e = 110 then Some 10
      else if e = 114 then Some 13 else if e = 116 then Some 9 else None)"

definition prepend :: "nat \<Rightarrow> exn + pystr \<times> pystr \<Rightarrow> exn + pystr \<times> pystr" where
  "prepend c r = (case r of Inl e \<Rightarrow> Inl e | Inr (s, rest) \<Rightarrow> Inr (c # s, rest))"

text \<open>One pass of the loop of scanstring on a text that does not start with the closing
  quote: the character it appends and how many characters it has read after the first.\<close>

definition scan_char :: "nat \<Rightarrow> pystr \<Rightarrow> exn + nat \<times> nat" where
  "scan_char c xs =
     (if c = 92 then
        (case xs of
           [] \<Rightarrow> Inl JSONDecodeError
         | e # ys \<Rightarrow>
             if e = 117 then
               (case decode_uXXXX ys of
                  None \<Rightarrow> Inl JSONDecodeError
                | Some uni \<Rightarrow>
                    if 55296 \<le> uni \<and> uni \<le> 56319 \<and> take 2 (drop 4 ys) = [92, 117] then
                      (case decode_uXXXX (drop 6 ys) of
                         None \<Rightarrow> Inl JSONDecodeError
                       | Some uni2 \<Rightarrow>
                           if 56320 \<le> uni2 \<and> uni2 \<le> 57343
                           then Inr (65536 + ((uni - 55296) * 1024 + (uni2 - 56320)), 11)
                           else Inr (uni, 5))
                    else Inr (uni, 5))
             else
               (case backslash e of
                  None \<Rightarrow> Inl JSONDecodeError
                | Some ch \<Rightarrow> Inr (ch, 1)))
      else if c < 32 then Inl JSONDecodeError
      else Inr (c, 0))"

function scanstring :: "pystr \<Rightarrow> exn + pystr \<times> pystr" where
  "scanstring [] = Inl JSONDecodeError"
| "scanstring (c # xs) =
     (if c = 34 then Inr ([], xs)
      else
        (case scan_char c xs of
           Inl e \<Rightarrow> Inl e
         | Inr (ch, n) \<Rightarrow> prepend ch (scanstring (drop n xs))))"
  by pat_completeness auto
termination
  by (relation "measure length") auto

definition is_ws :: "nat \<Rightarrow> bool" where
  "is_ws c \<longleftrightarrow> c = 32 \<or> c = 9 \<or> c = 10 \<or> c = 13"

definition skip_ws :: "pystr \<Rightarrow> pystr" where
  "skip_ws xs = dropWhile is_ws xs"

fun dict_set :: "(pystr \<times> pyval) list \<Rightarrow> pystr \<Rightarrow> pyval \<Rightarrow> (pystr \<times> pyval) list" where
  "dict_set [] k v = [(k, v)]"
| "dict_set (p # ps) k v = (if fst p = k then (k, v) # ps else p # dict_set ps k v)"

type_synonym scanner = "pystr \<Rightarrow> exn + pyval \<times> nat"

definition scan_value :: "scanner \<Rightarrow> pystr \<Rightarrow> exn + pyval \<times> pystr" where
  "scan_value other xs =
     (case xs of
        [] \<Rightarrow> Inl JSONDecodeError
      | c # rest \<Rightarrow>
          if c = 34 then
            (case scanstring rest of Inl e \<Rightarrow> Inl e | Inr (s, r) \<Rightarrow> Inr (PyStr s, r))
          else
            (case other xs of Inl e \<Rightarrow> Inl e | Inr (v, n) \<Rightarrow> Inr (v, drop (Suc n) xs)))"

definition member :: "scanner \<Rightarrow> pystr \<Rightarrow> exn + (pystr \<times> pyval) \<times> pystr" where
  "member other xs =
     (case scanstring xs of
        Inl e \<Rightarrow> Inl e
      | Inr (key, r1) \<Rightarrow>
          (case skip_ws r1 of
             [] \<Rightarrow> Inl JSONDecodeError
           | c # r2 \<Rightarrow>
               if c = 58 then
                 (case scan_value other (skip_ws r2) of
                    Inl e \<Rightarrow> Inl e
                  | Inr (v, r3) \<Rightarrow> Inr ((key, v), r3))
               else Inl JSONDecodeError))"

function members :: "scanner \<Rightarrow> pystr \<Rightarrow> (pystr \<times> pyval) list \<Rightarrow> exn + pyval \<times> pystr" where
  "members other xs pairs =
     (case member other xs of
        Inl e \<Rightarrow> Inl e
      | Inr (kv, r3) \<Rightarrow>
          (case skip_ws r3 of
             [] \<Rightarrow> Inl JSONDecodeError
           | c # r4 \<Rightarrow>
               if c = 125 then Inr (PyDict (dict_set pairs (fst kv) (snd kv)), r4)
               else if c = 44 then
                 (case skip_ws r4 of
                    [] \<Rightarrow> Inl JSONDecodeError
                  | q # r5 \<Rightarrow>
                      if q = 34 then members other r5 (dict_set pairs (fst kv) (snd kv))
                      else Inl JSONDecodeError)
               else Inl JSONDecodeError))"
  by pat_completeness auto
termination
proof -
  have scan: "scanstring ys = Inr (s, r) \<Longrightarrow> length r < length ys" for ys s r
  proof (induction ys arbitrary: s r rule: scanstring.induct)
    case 1
    then show ?case by simp
  next
    case (2 c ys)
    show ?case
    proof (cases "c = 34")
      case True
      with "2.prems" show ?thesis by simp
    next
      case False
      with "2.prems" obtain ch n where sc: "scan_char c ys = Inr (ch, n)"
        by (auto split: sum.splits)
      with False "2.prems" obtain s' where "scanstring (drop n ys) = Inr (s', r)"
        by (auto simp: prepend_def split: sum.splits)
      from "2.IH" [OF False sc refl this] show ?thesis by simp
    qed
  qed
  have ws: "length (skip_ws ys) \<le> length ys" for ys
    by (simp add: skip_ws_def length_dropWhile_le)
  have val: "scan_value other ys = Inr (v, r) \<Longrightarrow> length r \<le> length ys"
    for other ys v r
    by (auto simp: scan_value_def split: list.splits if_splits sum.splits dest: scan)
  have step: "length r5 < length xs"
    if m: "member other xs = Inr (kv, r3)" and s3: "skip_ws r3 = c # r4"
      and s4: "skip_ws r4 = q # r5" for other xs kv r3 c r4 q r5
  proof -
    from m obtain key r1 c1 r2 v where a: "scanstring xs = Inr (key, r1)"
      and b: "skip_ws r1 = c1 # r2" and c: "scan_value other (skip_ws r2) = Inr (v, r3)"
      by (auto simp: member_def split: sum.splits list.splits if_splits)
    have "length r5 < length r4" using ws [of r4] s4 by simp
    moreover have "length r4 < length r3" using ws [of r3] s3 by simp
    moreover have "length r3 \<le> length r2" using val [OF c] ws [of r2] by simp
    moreover have "length r2 < length r1" using ws [of r1] b by simp
    moreover have "length r1 < length xs" using scan [OF a] .
    ultimately show ?thesis by simp
  qed
  show ?thesis
    by (relation "measure (\<lambda>(other, xs, pairs). length xs)") (auto intro: step)
qed

definition JSONObject :: "scanner \<Rightarrow> pystr \<Rightarrow> exn + pyval \<times> pystr" where
  "JSONObject other xs =
     (case skip_ws xs of
        [] \<Rightarrow> Inl JSONDecodeError
      | c # r \<Rightarrow>
          if c = 125 then Inr (PyDict [], r)
          else if c = 34 then members other r []
          else Inl JSONDecodeError)"

definition scan_once :: "scanner \<Rightarrow> pystr \<Rightarrow> exn + pyval \<times> pystr" where
  "scan_once other xs =
     (case xs of
        [] \<Rightarrow> Inl JSONDecodeError
      | c # rest \<Rightarrow> if c = 123 then JSONObject other rest else scan_value other xs)"

definition loads :: "scanner \<Rightarrow> pystr \<Rightarrow> exn + pyval" where
  "loads other s =
     (if take 1 s = [65279] then Inl JSONDecodeError
      else
        (case scan_once other (skip_ws s) of
           Inl e \<Rightarrow> Inl e
         | Inr (v, rest) \<Rightarrow> if skip_ws rest = [] then Inr v else Inl JSONDecodeError))"

definition json_loads :: "('w, 'x) env_scheme \<Rightarrow> pystr \<Rightarrow> exn + pyval" where
  "json_loads E s = loads (scan_other E) s"

section \<open>Tool functions\<close>

subsection \<open>get_weather\<close>

definition weather_url :: "('w, 'x) env_scheme \<Rightarrow> pyval \<Rightarrow> pystr" where
  "weather_url E city = ascii ''https://wttr.in/'' @ py_str E city @ ascii ''?format=%C+%t''"

definition weather_ok :: "pystr \<Rightarrow> pystr \<Rightarrow> pystr" where
  "weather_ok city body =
     [127782, 65039] @ ascii '' The weather in **'' @ city @ ascii ''** is `'' @ body @ ascii ''`.''"

definition weather_failed :: pystr where
  "weather_failed = [10060] @ ascii '' Unable to fetch weather at the moment.''"

definition get_weather :: "('w, 'x) env_scheme \<Rightarrow> pyval \<Rightarrow> 'w \<Rightarrow> (exn + pystr) \<times> 'w" where
  "get_weather E city w =
     (case requests_get E (weather_url E city) w of
        (Inl e, w') \<Rightarrow> (Inl e, w')
      | (Inr response, w') \<Rightarrow>
          if status_code response = 200
          then (Inr (weather_ok (py_str E city) (strip (resp_text response))), w')
          else (Inr weather_failed, w'))"

subsection \<open>google_search\<close>

text \<open>\<open>os.getenv\<close> gives \<open>None\<close> for an unset variable, and the f-string prints it.\<close>

definition getenv_str :: "('w, 'x) env_scheme \<Rightarrow> pystr \<Rightarrow> pystr" where
  "getenv_str E k = (case os_getenv E k of None \<Rightarrow> ascii ''None'' | Some v \<Rightarrow> v)"

definition search_url :: "('w, 'x) env_scheme \<Rightarrow> pyval \<Rightarrow> pystr" where
  "search_url E query =
     ascii ''https://www.googleapis.com/customsearch/v1?q='' @ py_str E query @
     ascii ''&key='' @ getenv_str E (ascii ''GOOGLE_API_KEY'') @
     ascii ''&cx='' @ getenv_str E (ascii ''GOOGLE_CSE_ID'')"

text \<open>\<open>data.get("items", [])\<close>: only a dict has \<open>get\<close>.\<close>

fun data_get_items :: "pyval \<Rightarrow> exn + pyval" where
  "data_get_items (PyDict d) =
     (case dict_get d (ascii ''items'') of None \<Rightarrow> Inr (PyList []) | Some v \<Rightarrow> Inr v)"
| "data_get_items v = Inl AttributeError"

text \<open>
  \<open>v[:3]\<close> and the iteration over it: a list gives its first three elements, a string
  its first three characters (each a string of length one); nothing else can be sliced.
\<close>

fun first_three :: "pyval \<Rightarrow> exn + pyval list" where
  "first_three (PyList xs) = Inr (take 3 xs)"
| "first_three (PyStr s) = Inr (map (\<lambda>c. PyStr [c]) (take 3 s))"
| "first_three v = Inl TypeError"

text \<open>\<open>item[k]\<close> with a string \<open>k\<close>: a lookup in a dict, a \<open>TypeError\<close> elsewhere.\<close>

fun subscript :: "pyval \<Rightarrow> pystr \<Rightarrow> exn + pyval" where
  "subscript (PyDict d) k = (case dict_get d k of None \<Rightarrow> Inl (KeyError k) | Some v \<Rightarrow> Inr v)"
| "subscript v k = Inl TypeError"

definition result_block :: "pystr \<Rightarrow> pystr \<Rightarrow> pystr" where
  "result_block title link =
     [128313] @ ascii '' **'' @ title @ ascii ''**'' @ [10] @ [128279] @ ascii '' '' @ link"

definition format_item :: "('w, 'x) env_scheme \<Rightarrow> pyval \<Rightarrow> exn + pystr" where
  "format_item E item =
     (case subscript item (ascii ''title'') of
        Inl e \<Rightarrow> Inl e
      | Inr t \<Rightarrow>
          (case subscript item (ascii ''link'') of
             Inl e \<Rightarrow> Inl e
           | Inr l \<Rightarrow> Inr (result_block (py_str E t) (py_str E l))))"

text \<open>The \<open>for\<close> loop that fills \<open>results\<close>; the first exception ends it.\<close>

fun format_items :: "('w, 'x) env_scheme \<Rightarrow> pyval list \<Rightarrow> pystr list \<Rightarrow> exn + pystr list" where
  "format_items E [] results = Inr results"
| "format_items E (item # items) results =
     (case format_item E item of
        Inl e \<Rightarrow> Inl e
      | Inr b \<Rightarrow> format_items E items (results @ [b]))"

definition no_results :: pystr where
  "no_results = ascii ''No results found.''"

definition search_failed :: "int \<Rightarrow> pystr \<Rightarrow> pystr" where
  "search_failed code body =
     [10060] @ ascii '' Search failed: '' @ str_int code @ ascii '' - '' @ body"

definition search_ok :: "('w, 'x) env_scheme \<Rightarrow> response \<Rightarrow> exn + pystr" where
  "search_ok E response =
     (case json response of
        Inl e \<Rightarrow> Inl e
      | Inr data \<Rightarrow>
          (case data_get_items data of
             Inl e \<Rightarrow> Inl e
           | Inr v \<Rightarrow>
               (case first_three v of
                  Inl e \<Rightarrow> Inl e
                | Inr items \<Rightarrow>
                    (case format_items E items [] of
                       Inl e \<Rightarrow> Inl e
                     | Inr results \<Rightarrow>
                         (let s = join [10, 10] results
                          in Inr (if s = [] then no_results else s))))))"

definition google_search :: "('w, 'x) env_scheme \<Rightarrow> pyval \<Rightarrow> 'w \<Rightarrow> (exn + pystr) \<times> 'w" where
  "google_search E query w =
     (case requests_get E (search_url E query) w of
        (Inl e, w') \<Rightarrow> (Inl e, w')
      | (Inr response, w') \<Rightarrow>
          if status_code response = 200
          then (search_ok E response, w')
          else (Inr (search_failed (status_code response) (resp_text response)), w'))"

section \<open>Tool registry\<close>

type_synonym ('w, 'x) tool_fn = "('w, 'x) env_scheme \<Rightarrow> pyval \<Rightarrow> 'w \<Rightarrow> (exn + pystr) \<times> 'w"

text \<open>\<open>available_tools\<close>: each name with its \<open>fn\<close> and its \<open>description\<close>.\<close>

definition available_tools :: "(pystr \<times> ('w, 'x) tool_fn \<times> pystr) list" where
  "available_tools =
     [(ascii ''get_weather'',
         (get_weather, ascii ''Takes a city name and returns current weather.'')),
      (ascii ''google_search'',
         (google_search, ascii ''Takes a query and returns top 3 Google search results.''))]"

section \<open>The dialogue loop\<close>

text \<open>
  The state of \<open>process_chat\<close>: \<open>st.session_state.messages\<close>, the outside world, and a
  trace that records, in order, every call of the completion endpoint with the messages it
  was given, every call of a tool with its input, and every notice shown to the user.
\<close>

datatype event =
    LLM_call "message list"
  | Tool_call pystr pyval
  | St_error pystr
  | St_info pystr
  | St_success pystr
  | St_markdown pystr
  | St_warning pystr

record 'w state =
  messages :: "message list"
  trace :: "event list"
  world :: 'w

text \<open>How one pass through the body of \<open>while True\<close> ends.\<close>

datatype outcome = Continue | Break | Raise exn

definition assistant :: "pystr \<Rightarrow> message" where
  "assistant c = \<lparr>role = ascii ''assistant'', content = c\<rparr>"

definition append_message :: "message \<Rightarrow> 'w state \<Rightarrow> 'w state" where
  "append_message m s = s\<lparr>messages := messages s @ [m]\<rparr>"

definition emit :: "event \<Rightarrow> 'w state \<Rightarrow> 'w state" where
  "emit e s = s\<lparr>trace := trace s @ [e]\<rparr>"

definition parse_error_notice :: pystr where
  "parse_error_notice = [9888, 65039] @ ascii '' LLM response was not in expected JSON format.''"

definition plan_notice :: "pystr \<Rightarrow> pystr" where
  "plan_notice c = [128204] @ ascii '' **Plan**: '' @ c"

definition observation_notice :: "pystr \<Rightarrow> pystr" where
  "observation_notice c = [128225] @ ascii '' **Observation**: '' @ c"

definition final_answer :: "pystr \<Rightarrow> pystr" where
  "final_answer c =
     [10] @ ascii ''                    <div style='' @ [39] @
     ascii ''background-color:#F0F8FF;padding:15px;border-radius:10px;border-left:5px solid #6A5ACD;'' @
     [39] @ ascii ''>'' @ [10] @ ascii ''                        <strong>'' @ [129302] @
     ascii '' Final Answer:</strong><br>'' @ c @
     [10] @ ascii ''                    </div>'' @ [10] @ ascii ''                ''"

definition unrecognized_notice :: pystr where
  "unrecognized_notice = [9888, 65039] @ ascii '' Unrecognized step.''"

text \<open>\<open>parsed.get(k)\<close>: \<open>None\<close> for a missing key.\<close>

definition get_or_none :: "(pystr \<times> pyval) list \<Rightarrow> pystr \<Rightarrow> pyval" where
  "get_or_none d k = (case dict_get d k of None \<Rightarrow> PyNone | Some v \<Rightarrow> v)"

definition observe_step :: "pystr \<Rightarrow> pyval" where
  "observe_step tool_output =
     PyDict [(ascii ''step'', PyStr (ascii ''observe'')), (ascii ''content'', PyStr tool_output)]"

text \<open>
  The \<open>action\<close> branch. \<open>tool_name in available_tools\<close> hashes the name, so a list or
  a dict raises \<open>TypeError\<close>; any other value that is not a registered name is absent,
  and then no branch of the \<open>if\<close> chain ends the pass: the loop starts over.
\<close>

definition call_tool ::
    "('w, 'x) env_scheme \<Rightarrow> pystr \<Rightarrow> ('w, 'x) tool_fn \<Rightarrow> pyval \<Rightarrow> 'w state \<Rightarrow> outcome \<times> 'w state" where
  "call_tool E tool_name tool tool_input s =
     (case tool E tool_input (world s) of
        (Inl e, w') \<Rightarrow> (Raise e, emit (Tool_call tool_name tool_input) (s\<lparr>world := w'\<rparr>))
      | (Inr tool_output, w') \<Rightarrow>
          (Continue,
           emit (St_success (observation_notice tool_output))
             (append_message (assistant (json_dumps E (observe_step tool_output)))
               (emit (Tool_call tool_name tool_input) (s\<lparr>world := w'\<rparr>)))))"

definition action :: "('w, 'x) env_scheme \<Rightarrow> (pystr \<times> pyval) list \<Rightarrow> 'w state \<Rightarrow> outcome \<times> 'w state" where
  "action E parsed s =
     (let tool_name = get_or_none parsed (ascii ''function'');
          tool_input = get_or_none parsed (ascii ''input'')
      in case tool_name of
           PyStr n \<Rightarrow>
             (case map_of available_tools n of
                None \<Rightarrow> (Continue, s)
              | Some (tool, d) \<Rightarrow> call_tool E n tool tool_input s)
         | PyList xs \<Rightarrow> (Raise TypeError, s)
         | PyDict d \<Rightarrow> (Raise TypeError, s)
         | _ \<Rightarrow> (Continue, s))"

text \<open>
  The dispatch on \<open>parsed.get("step")\<close>; only a dict has \<open>get\<close>. The \<open>plan\<close> and
  \<open>output\<close> branches read \<open>parsed['content']\<close>, which raises \<open>KeyError\<close> for a missing
  key.
\<close>

definition dispatch :: "('w, 'x) env_scheme \<Rightarrow> pyval \<Rightarrow> 'w state \<Rightarrow> outcome \<times> 'w state" where
  "dispatch E parsed s =
     (case parsed of
        PyDict d \<Rightarrow>
          (let step = get_or_none d (ascii ''step'')
           in if step = PyStr (ascii ''plan'') then
                (case subscript parsed (ascii ''content'') of
                   Inl e \<Rightarrow> (Raise e, s)
                 | Inr c \<Rightarrow> (Continue, emit (St_info (plan_notice (py_str E c))) s))
              else if step = PyStr (ascii ''action'') then action E d s
              else if step = PyStr (ascii ''output'') then
                (case subscript parsed (ascii ''content'') of
                   Inl e \<Rightarrow> (Raise e, s)
                 | Inr c \<Rightarrow> (Break, emit (St_markdown (final_answer (py_str E c))) s))
              else (Break, emit (St_warning unrecognized_notice) s))
      | _ \<Rightarrow> (Raise AttributeError, s))"

text \<open>
  What follows the completion call: the \<open>try\<close> around \<open>json.loads\<close>, which catches
  \<open>JSONDecodeError\<close> only, then the append of the serialized reply and the dispatch.
\<close>

definition handle_reply :: "('w, 'x) env_scheme \<Rightarrow> pystr \<Rightarrow> 'w state \<Rightarrow> outcome \<times> 'w state" where
  "handle_reply E reply s =
     (case json_loads E reply of
        Inl e \<Rightarrow>
          if e = JSONDecodeError
          then (Break, append_message (assistant reply) (emit (St_error parse_error_notice) s))
          else (Raise e, s)
      | Inr parsed \<Rightarrow> dispatch E parsed (append_message (assistant (json_dumps E parsed)) s))"

definition iteration :: "('w, 'x) env_scheme \<Rightarrow> 'w state \<Rightarrow> outcome \<times> 'w state" where
  "iteration E s =
     (case chat_completions_create E (messages s) (world s) of
        (Inl e, w') \<Rightarrow> (Raise e, emit (LLM_call (messages s)) (s\<lparr>world := w'\<rparr>))
      | (Inr reply, w') \<Rightarrow>
          handle_reply E reply (emit (LLM_call (messages s)) (s\<lparr>world := w'\<rparr>)))"

text \<open>
  \<open>process_chat\<close>: the \<open>while True\<close> loop, which may run forever, with a bound on the
  number of passes. \<open>Running\<close> is the loop that has used up its passes and would start
  the next one.
\<close>

datatype result = Running | Returned | Raised exn

fun process_chat :: "nat \<Rightarrow> ('w, 'x) env_scheme \<Rightarrow> 'w state \<Rightarrow> result \<times> 'w state" where
  "process_chat 0 E s = (Running, s)"
| "process_chat (Suc n) E s =
     (case iteration E s of
        (Continue, s') \<Rightarrow> process_chat n E s'
      | (Break, s') \<Rightarrow> (Returned, s')
      | (Raise e, s') \<Rightarrow> (Raised e, s'))"

text \<open>
  The title and the link of one item of the search answer, when it is a dict that has both,
  and the block \<open>google_search\<close> prints for them.
\<close>

fun title_link :: "pyval \<Rightarrow> (pyval \<times> pyval) option" where
  "title_link (PyDict d) =
     (case dict_get d (ascii ''title'') of
        None \<Rightarrow> None
      | Some t \<Rightarrow> (case dict_get d (ascii ''link'') of None \<Rightarrow> None | Some l \<Rightarrow> Some (t, l)))"
| "title_link v = None"

definition block_of :: "('w, 'x) env_scheme \<Rightarrow> pyval \<times> pyval \<Rightarrow> pystr" where
  "block_of E p = result_block (py_str E (fst p)) (py_str E (snd p))"

section \<open>The Step shape\<close>

text \<open>
  Modelled from the spec: the Step shape of its data model, which the source never checks.
  A Step is an object whose \<open>step\<close> is one of plan, action, observe and output, whose
  \<open>content\<close> is a string, and whose \<open>function\<close> and \<open>input\<close>, when present, are
  strings.
\<close>

fun is_step :: "pyval \<Rightarrow> bool" where
  "is_step (PyDict d) =
     ((case dict_get d (ascii ''step'') of
         Some (PyStr t) \<Rightarrow> t \<in> set [ascii ''plan'', ascii ''action'', ascii ''observe'', ascii ''output'']
       | _ \<Rightarrow> False) \<and>
      (case dict_get d (ascii ''content'') of Some (PyStr c) \<Rightarrow> True | _ \<Rightarrow> False) \<and>
      (case dict_get d (ascii ''function'') of None \<Rightarrow> True | Some (PyStr f) \<Rightarrow> True | _ \<Rightarrow> False) \<and>
      (case dict_get d (ascii ''input'') of None \<Rightarrow> True | Some (PyStr i) \<Rightarrow> True | _ \<Rightarrow> False))"
| "is_step v = False"

section \<open>Strings and the round trip\<close>

text \<open>
  A high surrogate immediately followed by a low surrogate is the one pattern of code points
  that \<open>json.dumps\<close> followed by \<open>json.loads\<close> does not give back. \<open>wf_str\<close> holds of
  a string of code points of Unicode without that pattern; \<open>strings\<close> is a dict whose
  values are all strings, and \<open>body\<close> the text \<open>json.dumps\<close> writes for it after the
  first quote.
\<close>

definition high :: "nat \<Rightarrow> bool" where
  "high c \<longleftrightarrow> 55296 \<le> c \<and> c \<le> 56319"

definition low :: "nat \<Rightarrow> bool" where
  "low c \<longleftrightarrow> 56320 \<le> c \<and> c \<le> 57343"

definition first_unit :: "nat \<Rightarrow> nat" where
  "first_unit c = (if c < 65536 then c else 55296 + (c - 65536) div 1024 mod 1024)"

fun no_pair :: "pystr \<Rightarrow> bool" where
  "no_pair (c # d # s) = (\<not> (high c \<and> low d) \<and> no_pair (d # s))"
| "no_pair s = True"

definition wf_str :: "pystr \<Rightarrow> bool" where
  "wf_str s \<longleftrightarrow> (\<forall>c\<in>set s. c < 1114112) \<and> no_pair s"

definition strings :: "(pystr \<times> pystr) list \<Rightarrow> (pystr \<times> pyval) list" where
  "strings sd = map (\<lambda>(k, v). (k, PyStr v)) sd"

fun body :: "(pystr \<times> pystr) list \<Rightarrow> pystr \<Rightarrow> pystr" where
  "body [] rest = rest"
| "body [(k, v)] rest =
     concat (map escape_char k) @ 34 # 58 # 32 # 34 # concat (map escape_char v) @ 34 # 125 # rest"
| "body ((k, v) # p # ps) rest =
     concat (map escape_char k) @ 34 # 58 # 32 # 34 # concat (map escape_char v) @ 34 # 44 # 32 # 34 #
     body (p # ps) rest"

section \<open>A scripted environment\<close>

text \<open>
  A concrete environment for checking the theorems on examples: the HTTP client and the
  completion endpoint answer from a script, each call taking the next entry, and the values
  that are neither strings nor objects are read from a table of their texts.
\<close>

record world =
  http_responses :: "(exn + response) list"
  llm_replies :: "(exn + pystr) list"

definition scripted_get :: "pystr \<Rightarrow> world \<Rightarrow> (exn + response) \<times> world" where
  "scripted_get url w =
     (case http_responses w of
        [] \<Rightarrow> (Inl (OtherError (ascii ''ConnectionError'')), w)
      | r # rs \<Rightarrow> (r, w\<lparr>http_responses := rs\<rparr>))"

definition scripted_create :: "message list \<Rightarrow> world \<Rightarrow> (exn + pystr) \<times> world" where
  "scripted_create ms w =
     (case llm_replies w of
        [] \<Rightarrow> (Inl (OtherError (ascii ''APIConnectionError'')), w)
      | r # rs \<Rightarrow> (r, w\<lparr>llm_replies := rs\<rparr>))"

definition table_scan :: "(pystr \<times> pyval) list \<Rightarrow> pystr \<Rightarrow> exn + pyval \<times> nat" where
  "table_scan tbl s =
     (case map_of tbl s of None \<Rightarrow> Inl JSONDecodeError | Some v \<Rightarrow> Inr (v, length s - 1))"

definition test_env :: "(pystr \<times> pyval) list \<Rightarrow> world env" where
  "test_env tbl =
     \<lparr>requests_get = scripted_get, os_getenv = (\<lambda>k. None), float_repr = (\<lambda>f. []),
      json_floatstr = (\<lambda>f. []), container_repr = (\<lambda>v. []), chat_completions_create = scripted_create,
      scan_other = table_scan tbl\<rparr>"

definition http_only :: "(exn + response) list \<Rightarrow> world" where
  "http_only rs = \<lparr>http_responses = rs, llm_replies = []\<rparr>"

definition Lahore :: pystr where "Lahore = ascii ''Lahore''"
definition sunny :: pystr where "sunny = ascii ''Sunny +25'' @ [176] @ ascii ''C''"

definition llm_only :: "(exn + pystr) list \<Rightarrow> world" where
  "llm_only rs = \<lparr>http_responses = [], llm_replies = rs\<rparr>"

definition user_asks :: "pystr \<Rightarrow> 'w \<Rightarrow> 'w state" where
  "user_asks q w = \<lparr>messages = [\<lparr>role = ascii ''user'', content = q\<rparr>], trace = [], world = w\<rparr>"

definition action_reply :: pystr where
  \<open>action_reply = ascii ''{"step":"action","function":"get_weather","input":"Lahore"}''\<close>

definition action_parsed :: "(pystr \<times> pyval) list" where
  "action_parsed = [(ascii ''step'', PyStr (ascii ''action'')),
     (ascii ''function'', PyStr (ascii ''get_weather'')), (ascii ''input'', PyStr (ascii ''Lahore''))]"

definition list_reply :: pystr where
  "list_reply = ascii ''[]''"


definition ok_response :: response where
  "ok_response = \<lparr>status_code = 200, resp_text = sunny, json = Inl JSONDecodeError\<rparr>"

definition output_reply :: pystr where
  \<open>output_reply = ascii ''{"step": "output", "content": "It is sunny."}''\<close>

definition output_parsed :: "(pystr \<times> pyval) list" where
  "output_parsed = [(ascii ''step'', PyStr (ascii ''output'')),
     (ascii ''content'', PyStr (ascii ''It is sunny.''))]"

definition unknown_tool_reply :: pystr where
  \<open>unknown_tool_reply = ascii ''{"step": "action", "function": "get_time", "input": "Lahore"}''\<close>

definition unknown_tool_parsed :: "(pystr \<times> pyval) list" where
  "unknown_tool_parsed = [(ascii ''step'', PyStr (ascii ''action'')),
     (ascii ''function'', PyStr (ascii ''get_time'')), (ascii ''input'', PyStr (ascii ''Lahore''))]"

definition plan_no_content_reply :: pystr where
  \<open>plan_no_content_reply = ascii ''{"step": "plan"}''\<close>

definition plan_no_content_parsed :: "(pystr \<times> pyval) list" where
  "plan_no_content_parsed = [(ascii ''step'', PyStr (ascii ''plan''))]"

definition replies :: "(pystr \<times> pyval) list" where
  "replies = [(list_reply, PyList [])]"

definition done_compact_reply :: pystr where
  \<open>done_compact_reply = ascii ''{"step":"done"}''\<close>

definition hello :: pystr where
  "hello = ascii ''hello''"

definition done_reply :: pystr where
  \<open>done_reply = ascii ''{"step": "done"}''\<close>

definition done_parsed :: "(pystr \<times> pyval) list" where
  "done_parsed = [(ascii ''step'', PyStr (ascii ''done''))]"

lemmas parser_defs = json_loads_def loads_def scan_once_def JSONObject_def member_def
  scan_value_def scan_char_def backslash_def prepend_def hexval_def skip_ws_def is_ws_def

lemmas fixture_defs = replies_def list_reply_def hello_def action_reply_def action_parsed_def
  output_reply_def output_parsed_def unknown_tool_reply_def unknown_tool_parsed_def
  plan_no_content_reply_def plan_no_content_parsed_def done_reply_def done_parsed_def
  done_compact_reply_def ascii_def

section \<open>The tool functions\<close>

text \<open>
  C5, as stated, fails: the sentence does not embed the raw response body. A body that ends
  with a newline is embedded without it.
\<close>

theorem get_weather_raw_body_counterexample:
  "get_weather (test_env []) (PyStr Lahore)
      (http_only [Inr \<lparr>status_code = 200, resp_text = sunny @ [10], json = Inl JSONDecodeError\<rparr>])
   \<noteq> (Inr (weather_ok Lahore (sunny @ [10])), http_only [])"
  by (simp add: get_weather_def test_env_def scripted_get_def http_only_def weather_ok_def
      sunny_def Lahore_def strip_def isspace_def ascii_def)

text \<open>
  C5 (amended): for every city string, when the weather endpoint answers with status 200,
  \<open>get_weather\<close> returns the formatted sentence embedding the response body stripped of
  its leading and trailing whitespace; for the city Lahore and the body \<open>Sunny +25 degrees C\<close> it
  returns exactly the sentence of scenario A.
\<close>

theorem get_weather_200:
  assumes "requests_get E (weather_url E (PyStr city)) w = (Inr r, w')"
    and "status_code r = 200"
  shows "get_weather E (PyStr city) w = (Inr (weather_ok city (strip (resp_text r))), w')
    \<and> (city = ascii ''Lahore'' \<and> resp_text r = ascii ''Sunny +25'' @ [176] @ ascii ''C'' \<longrightarrow>
         get_weather E (PyStr city) w =
           (Inr ([127782, 65039] @ ascii '' The weather in **Lahore** is `Sunny +25'' @ [176] @
                 ascii ''C`.''), w'))"
proof -
  have main: "get_weather E (PyStr city) w = (Inr (weather_ok city (strip (resp_text r))), w')"
    using assms by (simp add: get_weather_def)
  have ex: "weather_ok (ascii ''Lahore'') (strip (ascii ''Sunny +25'' @ [176] @ ascii ''C'')) =
          [127782, 65039] @ ascii '' The weather in **Lahore** is `Sunny +25'' @ [176] @ ascii ''C`.''"
    by (simp add: weather_ok_def strip_def isspace_def ascii_def)
  show ?thesis
  proof (intro conjI impI)
    show "get_weather E (PyStr city) w = (Inr (weather_ok city (strip (resp_text r))), w')"
      by (rule main)
  next
    assume "city = ascii ''Lahore'' \<and> resp_text r = ascii ''Sunny +25'' @ [176] @ ascii ''C''"
    then have c: "city = ascii ''Lahore''"
      and b: "resp_text r = ascii ''Sunny +25'' @ [176] @ ascii ''C''"
      by blast+
    show "get_weather E (PyStr city) w =
           (Inr ([127782, 65039] @ ascii '' The weather in **Lahore** is `Sunny +25'' @ [176] @
                 ascii ''C`.''), w')"
      unfolding main unfolding c b ex ..
  qed
qed

theorem get_weather_200_witness:
  "get_weather (test_env []) (PyStr Lahore)
      (http_only [Inr \<lparr>status_code = 200, resp_text = sunny, json = Inl JSONDecodeError\<rparr>])
   = (Inr ([127782, 65039] @ ascii '' The weather in **Lahore** is `Sunny +25'' @ [176] @
                 ascii ''C`.''), http_only [])"
proof -
  let ?r = "\<lparr>status_code = 200, resp_text = sunny, json = Inl JSONDecodeError\<rparr>"
  have h1: "requests_get (test_env []) (weather_url (test_env []) (PyStr Lahore))
              (http_only [Inr ?r]) = (Inr ?r, http_only [])"
    by (simp add: test_env_def scripted_get_def http_only_def)
  have h2: "status_code ?r = 200" by simp
  from get_weather_200 [OF h1 h2, THEN conjunct2] show ?thesis
    by (simp add: Lahore_def sunny_def)
qed

text \<open>Helper lemmas on the loop over the items and on the joined blocks.\<close>

lemma format_items_acc:
  "map title_link items = map Some tls \<Longrightarrow>
   format_items E items acc = Inr (acc @ map (block_of E) tls)"
proof (induction items arbitrary: acc tls)
  case Nil
  then show ?case by simp
next
  case (Cons item items)
  then obtain p tls' where tls: "tls = p # tls'" and first: "title_link item = Some p"
    and rest: "map title_link items = map Some tls'"
    by (cases tls) auto
  from first have "format_item E item = Inr (block_of E p)"
    by (cases item) (auto simp: format_item_def block_of_def split: option.splits)
  with Cons.IH [OF rest] tls show ?case by simp
qed

lemma join_blocks_empty: "join sep (map (block_of E) tls) = [] \<longleftrightarrow> tls = []"
proof (cases tls)
  case Nil
  then show ?thesis by simp
next
  case (Cons a as)
  then show ?thesis by (cases as) (simp_all add: block_of_def result_block_def)
qed

text \<open>
  C6: when the search endpoint answers with status 200 and a JSON object whose \<open>items\<close>
  (absent, or a list whose first three elements are dicts with a title and a link),
  \<open>google_search\<close> formats at most the first three items, each as the two-line block of
  its title and link, joins the blocks with one blank line, and returns
  \<open>No results found.\<close> when there is no item.
\<close>

theorem google_search_200:
  assumes "requests_get E (search_url E (PyStr query)) w = (Inr r, w')"
    and "status_code r = 200"
    and "json r = Inr (PyDict d)"
    and "dict_get d (ascii ''items'') = Some (PyList items)
         \<or> dict_get d (ascii ''items'') = None \<and> items = []"
    and "map title_link (take 3 items) = map Some tls"
  shows "length tls \<le> 3 \<and>
         google_search E (PyStr query) w =
           (Inr (if items = [] then ascii ''No results found.''
                 else join [10, 10] (map (block_of E) tls)), w')"
proof -
  have len: "length tls = length (take 3 items)"
    using assms(5) by (metis length_map)
  have items: "data_get_items (PyDict d) = Inr (PyList items)"
    using assms(4) by auto
  have fmt: "format_items E (take 3 items) [] = Inr (map (block_of E) tls)"
    using format_items_acc [OF assms(5), of E "[]"] by simp
  have "tls = [] \<longleftrightarrow> items = []"
    using len by (cases items) auto
  then show ?thesis
    using assms(1-3) items fmt len
    by (simp add: google_search_def search_ok_def join_blocks_empty no_results_def)
qed

theorem google_search_200_witness:
  "google_search (test_env []) (PyStr (ascii ''q''))
     (http_only [Inr \<lparr>status_code = 200, resp_text = [],
        json = Inr (PyDict [(ascii ''items'', PyList
          [PyDict [(ascii ''title'', PyStr (ascii ''A'')), (ascii ''link'', PyStr (ascii ''u''))],
           PyDict [(ascii ''title'', PyStr (ascii ''B'')), (ascii ''link'', PyStr (ascii ''v''))],
           PyDict [(ascii ''link'', PyStr (ascii ''w'')), (ascii ''title'', PyStr (ascii ''C''))],
           PyDict [(ascii ''title'', PyStr (ascii ''D'')), (ascii ''link'', PyStr (ascii ''x''))]])])\<rparr>])
   = (Inr ([128313] @ ascii '' **A**'' @ [10, 128279] @ ascii '' u'' @ [10, 10] @
           [128313] @ ascii '' **B**'' @ [10, 128279] @ ascii '' v'' @ [10, 10] @
           [128313] @ ascii '' **C**'' @ [10, 128279] @ ascii '' w''), http_only [])"
proof -
  let ?items = "[PyDict [(ascii ''title'', PyStr (ascii ''A'')), (ascii ''link'', PyStr (ascii ''u''))],
           PyDict [(ascii ''title'', PyStr (ascii ''B'')), (ascii ''link'', PyStr (ascii ''v''))],
           PyDict [(ascii ''link'', PyStr (ascii ''w'')), (ascii ''title'', PyStr (ascii ''C''))],
           PyDict [(ascii ''title'', PyStr (ascii ''D'')), (ascii ''link'', PyStr (ascii ''x''))]]"
  let ?d = "[(ascii ''items'', PyList ?items)]"
  let ?r = "\<lparr>status_code = 200, resp_text = [], json = Inr (PyDict ?d)\<rparr>"
  let ?tls = "[(PyStr (ascii ''A''), PyStr (ascii ''u'')), (PyStr (ascii ''B''), PyStr (ascii ''v'')),
               (PyStr (ascii ''C''), PyStr (ascii ''w''))]"
  have h1: "requests_get (test_env []) (search_url (test_env []) (PyStr (ascii ''q'')))
              (http_only [Inr ?r]) = (Inr ?r, http_only [])"
    by (simp add: test_env_def scripted_get_def http_only_def)
  have h2: "status_code ?r = 200" by simp
  have h3: "json ?r = Inr (PyDict ?d)" by simp
  have h4: "dict_get ?d (ascii ''items'') = Some (PyList ?items)
            \<or> dict_get ?d (ascii ''items'') = None \<and> ?items = []"
    by (simp add: dict_get_def)
  have h5: "map title_link (take 3 ?items) = map Some ?tls"
    by (simp add: dict_get_def ascii_def)
  from google_search_200 [OF h1 h2 h3 h4 h5] show ?thesis
    by (simp add: block_of_def result_block_def ascii_def)
qed

text \<open>
  C7: for every city string and every status other than 200, \<open>get_weather\<close> returns the
  same fixed failure message and raises nothing.
\<close>

theorem get_weather_non_200:
  assumes "requests_get E (weather_url E (PyStr city)) w = (Inr r, w')"
    and "status_code r \<noteq> 200"
  shows "get_weather E (PyStr city) w =
           (Inr ([10060] @ ascii '' Unable to fetch weather at the moment.''), w')"
  using assms by (simp add: get_weather_def weather_failed_def)

theorem get_weather_non_200_witness:
  "get_weather (test_env []) (PyStr Lahore)
      (http_only [Inr \<lparr>status_code = 404, resp_text = ascii ''Not Found'', json = Inl JSONDecodeError\<rparr>])
   = (Inr ([10060] @ ascii '' Unable to fetch weather at the moment.''), http_only [])"
proof -
  let ?r = "\<lparr>status_code = 404, resp_text = ascii ''Not Found'', json = Inl JSONDecodeError\<rparr>"
  have h1: "requests_get (test_env []) (weather_url (test_env []) (PyStr Lahore))
              (http_only [Inr ?r]) = (Inr ?r, http_only [])"
    by (simp add: test_env_def scripted_get_def http_only_def)
  have h2: "status_code ?r \<noteq> 200" by simp
  from get_weather_non_200 [OF h1 h2] show ?thesis .
qed

section \<open>The dialogue loop: what one pass does\<close>

text \<open>
  Every pass begins with a call of the completion endpoint on the messages so far, and the
  trace only grows; so a loop that is given one more pass calls the endpoint again.
\<close>

lemma trace_dispatch:
  "\<exists>rest. trace (snd (dispatch E parsed s)) = trace s @ rest"
  by (auto simp: dispatch_def action_def call_tool_def emit_def append_message_def Let_def
      split: pyval.splits sum.splits option.splits prod.splits)

lemma trace_iteration:
  "\<exists>rest. trace (snd (iteration E s)) = trace s @ LLM_call (messages s) # rest"
proof -
  have h: "\<exists>rest. trace (snd (handle_reply E reply t)) = trace t @ rest" for reply t
    using trace_dispatch [of E _ "append_message (assistant (json_dumps E _)) t"]
    by (auto simp: handle_reply_def emit_def append_message_def split: sum.splits)
  show ?thesis
  proof (cases "chat_completions_create E (messages s) (world s)")
    case (Pair r w')
    show ?thesis
    proof (cases r)
      case (Inl e)
      with Pair show ?thesis by (simp add: iteration_def emit_def)
    next
      case (Inr reply)
      from h [of reply "emit (LLM_call (messages s)) (s\<lparr>world := w'\<rparr>)"]
      obtain rest where "trace (snd (handle_reply E reply (emit (LLM_call (messages s)) (s\<lparr>world := w'\<rparr>))))
         = trace s @ LLM_call (messages s) # rest"
        by (auto simp: emit_def)
      with Pair Inr show ?thesis by (simp add: iteration_def)
    qed
  qed
qed

lemma trace_process_chat:
  "\<exists>rest. trace (snd (process_chat n E s)) = trace s @ rest"
proof (induction n arbitrary: s)
  case 0
  then show ?case by simp
next
  case (Suc n)
  obtain o' s' where it: "iteration E s = (o', s')" by (cases "iteration E s")
  from trace_iteration [of E s] it obtain r1 where r1: "trace s' = trace s @ LLM_call (messages s) # r1"
    by auto
  show ?case
  proof (cases o')
    case Continue
    from Suc.IH [of s'] obtain r2 where "trace (snd (process_chat n E s')) = trace s' @ r2" by blast
    with it Continue r1 show ?thesis by simp
  next
    case Break
    with it r1 show ?thesis by simp
  next
    case (Raise e)
    with it r1 show ?thesis by simp
  qed
qed

lemma next_llm_call:
  "\<exists>rest. trace (snd (process_chat (Suc n) E s)) = trace s @ LLM_call (messages s) # rest"
proof -
  obtain o' s' where it: "iteration E s = (o', s')" by (cases "iteration E s")
  from trace_iteration [of E s] it obtain r1 where r1: "trace s' = trace s @ LLM_call (messages s) # r1"
    by auto
  show ?thesis
  proof (cases o')
    case Continue
    from trace_process_chat [of n E s'] obtain r2 where "trace (snd (process_chat n E s')) = trace s' @ r2" by blast
    with it Continue r1 show ?thesis by simp
  next
    case Break
    with it r1 show ?thesis by simp
  next
    case (Raise e)
    with it r1 show ?thesis by simp
  qed
qed


text \<open>
  C1: when the reply parses to an object with step \<open>action\<close>, a function \<open>F\<close> that is a
  key of the registry and an input \<open>I\<close>, the pass calls the function registered for \<open>F\<close>
  with exactly \<open>I\<close>; when it returns \<open>R\<close>, the pass appends, after the serialized
  reply, one assistant message that is the serialization of
  \<open>{step: observe, content: R}\<close>, and the loop does not stop: its next pass calls the
  completion endpoint on the extended conversation.
\<close>

theorem action_registered:
  assumes "chat_completions_create E (messages s) (world s) = (Inr reply, w1)"
    and "json_loads E reply = Inr (PyDict d)"
    and "dict_get d (ascii ''step'') = Some (PyStr (ascii ''action''))"
    and "dict_get d (ascii ''function'') = Some (PyStr F)"
    and "dict_get d (ascii ''input'') = Some I"
    and "map_of available_tools F = Some (tool, desc)"
    and "tool E I w1 = (Inr R, w2)"
    and \<open>s' = s\<lparr>messages := messages s @
                   [\<lparr>role = ascii ''assistant'', content = json_dumps E (PyDict d)\<rparr>,
                    \<lparr>role = ascii ''assistant'',
                      content = ascii ''{"step": "observe", "content": '' @
                                encode_basestring_ascii R @ ascii ''}''\<rparr>],
                 trace := trace s @
                   [LLM_call (messages s), Tool_call F I,
                    St_success ([128225] @ ascii '' **Observation**: '' @ R)],
                 world := w2\<rparr>\<close>
  shows \<open>iteration E s = (Continue, s') \<and>
         json_dumps E (PyDict [(ascii ''step'', PyStr (ascii ''observe'')),
                               (ascii ''content'', PyStr R)]) =
           ascii ''{"step": "observe", "content": '' @ encode_basestring_ascii R @ ascii ''}'' \<and>
         (\<forall>n. process_chat (Suc (Suc n)) E s = process_chat (Suc n) E s' \<and>
              (\<exists>rest. trace (snd (process_chat (Suc n) E s')) =
                        trace s' @ LLM_call (messages s') # rest))\<close>
proof -
  have dumped: \<open>json_dumps E (PyDict [(ascii ''step'', PyStr (ascii ''observe'')),
                                     (ascii ''content'', PyStr R)]) =
           ascii ''{"step": "observe", "content": '' @ encode_basestring_ascii R @ ascii ''}''\<close>
    by (simp add: encode_basestring_ascii_def escape_char_def ascii_def)
  have it: "iteration E s = (Continue, s')"
    using assms(1-7) unfolding assms(8) dumped [symmetric]
    by (simp add: iteration_def handle_reply_def dispatch_def action_def call_tool_def
        get_or_none_def observe_step_def observation_notice_def assistant_def emit_def
        append_message_def ascii_def del: json_dumps.simps)
  then have "process_chat (Suc (Suc n)) E s = process_chat (Suc n) E s'" for n
    by simp
  with it dumped next_llm_call [of _ E s'] show ?thesis by blast
qed


theorem action_registered_witness:
  \<open>iteration (test_env replies)
     (user_asks (ascii ''weather?'')
        \<lparr>http_responses = [Inr ok_response], llm_replies = [Inr action_reply]\<rparr>) =
   (Continue,
    \<lparr>messages = [\<lparr>role = ascii ''user'', content = ascii ''weather?''\<rparr>,
         \<lparr>role = ascii ''assistant'',
           content = ascii ''{"step": "action", "function": "get_weather", "input": "Lahore"}''\<rparr>,
         \<lparr>role = ascii ''assistant'',
           content = ascii ''{"step": "observe", "content": "'' @ [92] @ ascii ''ud83c'' @ [92] @
             ascii ''udf26'' @ [92] @ ascii ''ufe0f The weather in **Lahore** is `Sunny +25'' @
             [92] @ ascii ''u00b0C`."}''\<rparr>],
     trace = [LLM_call [\<lparr>role = ascii ''user'', content = ascii ''weather?''\<rparr>],
         Tool_call (ascii ''get_weather'') (PyStr (ascii ''Lahore'')),
         St_success ([128225] @ ascii '' **Observation**: '' @ [127782, 65039] @
           ascii '' The weather in **Lahore** is `Sunny +25'' @ [176] @ ascii ''C`.'')],
     world = \<lparr>http_responses = [], llm_replies = []\<rparr>\<rparr>)\<close>
proof -
  let ?E = "test_env replies"
  let ?w0 = "\<lparr>http_responses = [Inr ok_response], llm_replies = [Inr action_reply]\<rparr>"
  let ?w1 = "\<lparr>http_responses = [Inr ok_response], llm_replies = []\<rparr>"
  let ?w2 = "\<lparr>http_responses = [], llm_replies = []\<rparr>"
  let ?s = "user_asks (ascii ''weather?'') ?w0"
  have h1: "chat_completions_create ?E (messages ?s) (world ?s) = (Inr action_reply, ?w1)"
    by (simp add: test_env_def scripted_create_def user_asks_def)
  have h2: "json_loads ?E action_reply = Inr (PyDict action_parsed)"
    by (simp add: test_env_def table_scan_def parser_defs fixture_defs replies_def)
  have h3: "dict_get action_parsed (ascii ''step'') = Some (PyStr (ascii ''action''))"
    by (simp add: dict_get_def action_parsed_def)
  have h4: "dict_get action_parsed (ascii ''function'') = Some (PyStr (ascii ''get_weather''))"
    by (simp add: dict_get_def action_parsed_def ascii_def)
  have h5: "dict_get action_parsed (ascii ''input'') = Some (PyStr Lahore)"
    by (simp add: dict_get_def action_parsed_def ascii_def Lahore_def)
  have h6: "map_of available_tools (ascii ''get_weather'') =
              Some (get_weather, ascii ''Takes a city name and returns current weather.'')"
    by (simp add: available_tools_def)
  have h7: "get_weather ?E (PyStr Lahore) ?w1 = (Inr (weather_ok Lahore sunny), ?w2)"
    by (simp add: get_weather_def test_env_def scripted_get_def ok_response_def strip_def
        sunny_def isspace_def ascii_def)
  from action_registered [OF h1 h2 h3 h4 h5 h6 h7 refl, THEN conjunct1] show ?thesis
    by (simp add: user_asks_def action_parsed_def weather_ok_def Lahore_def sunny_def
        encode_basestring_ascii_def escape_char_def hex4_def hexdigit_def ascii_def)
qed

text \<open>
  C2, as stated, fails for a reply that is valid JSON but not a Step. The reply
  \<open>{"step":"done"}\<close> is parsed, appended in the form \<open>json.dumps\<close> gives it, which is not
  the raw text, and ends the loop by the branch for an unrecognized step; the reply \<open>[]\<close>
  parses to a list, and the loop ends with an unhandled \<open>AttributeError\<close>.
\<close>

theorem non_step_reply_counterexample:
  "json_loads (test_env replies) done_compact_reply = Inr (PyDict done_parsed) \<and>
   \<not> is_step (PyDict done_parsed) \<and>
   process_chat 1 (test_env replies) (user_asks (ascii ''hi'') (llm_only [Inr done_compact_reply]))
     = (Returned,
        \<lparr>messages = [\<lparr>role = ascii ''user'', content = ascii ''hi''\<rparr>,
                     \<lparr>role = ascii ''assistant'', content = done_reply\<rparr>],
         trace = [LLM_call [\<lparr>role = ascii ''user'', content = ascii ''hi''\<rparr>],
                  St_warning ([9888, 65039] @ ascii '' Unrecognized step.'')],
         world = llm_only []\<rparr>) \<and>
   done_reply \<noteq> done_compact_reply \<and>
   json_loads (test_env replies) list_reply = Inr (PyList []) \<and> \<not> is_step (PyList []) \<and>
   fst (process_chat 1 (test_env replies) (user_asks (ascii ''hi'') (llm_only [Inr list_reply])))
     = Raised AttributeError"
  by (simp add: test_env_def table_scan_def parser_defs fixture_defs
      iteration_def handle_reply_def dispatch_def scripted_create_def user_asks_def llm_only_def
      get_or_none_def dict_get_def emit_def append_message_def assistant_def
      unrecognized_notice_def encode_basestring_ascii_def escape_char_def)

text \<open>
  C2 (amended): for every reply text that is not valid JSON (\<open>json.loads\<close> raises
  \<open>JSONDecodeError\<close>), the loop recovers, appends the raw reply text unchanged as the last
  assistant message, notifies the user and returns after that single pass, with no further
  call of the completion endpoint, whatever number of passes it is allowed.
\<close>

theorem parse_failure:
  assumes "chat_completions_create E (messages s) (world s) = (Inr reply, w1)"
    and "json_loads E reply = Inl JSONDecodeError"
  shows "process_chat (Suc n) E s =
           (Returned,
            s\<lparr>messages := messages s @ [\<lparr>role = ascii ''assistant'', content = reply\<rparr>],
              trace := trace s @
                [LLM_call (messages s),
                 St_error ([9888, 65039] @ ascii '' LLM response was not in expected JSON format.'')],
              world := w1\<rparr>)"
  using assms
  by (simp add: iteration_def handle_reply_def emit_def append_message_def assistant_def
      parse_error_notice_def)

theorem parse_failure_witness:
  "process_chat 3 (test_env replies) (user_asks (ascii ''hi'') (llm_only [Inr hello, Inr hello])) =
     (Returned,
      \<lparr>messages = [\<lparr>role = ascii ''user'', content = ascii ''hi''\<rparr>,
                   \<lparr>role = ascii ''assistant'', content = ascii ''hello''\<rparr>],
       trace = [LLM_call [\<lparr>role = ascii ''user'', content = ascii ''hi''\<rparr>],
                St_error ([9888, 65039] @ ascii '' LLM response was not in expected JSON format.'')],
       world = llm_only [Inr hello]\<rparr>)"
proof -
  let ?E = "test_env replies"
  let ?s = "user_asks (ascii ''hi'') (llm_only [Inr hello, Inr hello])"
  have h1: "chat_completions_create ?E (messages ?s) (world ?s) = (Inr hello, llm_only [Inr hello])"
    by (simp add: test_env_def scripted_create_def user_asks_def llm_only_def)
  have h2: "json_loads ?E hello = Inl JSONDecodeError"
    by (simp add: test_env_def table_scan_def parser_defs fixture_defs replies_def hello_def action_reply_def
        list_reply_def output_reply_def unknown_tool_reply_def plan_no_content_reply_def ascii_def)
  from parse_failure [OF h1 h2, of 2] show ?thesis
    by (simp add: user_asks_def numeral_3_eq_3 hello_def)
qed



text \<open>
  C8: when the reply parses to an object with step \<open>output\<close> and the content \<open>C\<close>, the
  loop returns after that pass, whatever number of passes it is allowed, with no further
  call of the completion endpoint, and the final answer shown embeds exactly \<open>C\<close>.
\<close>

theorem output_step:
  assumes "chat_completions_create E (messages s) (world s) = (Inr reply, w1)"
    and "json_loads E reply = Inr (PyDict d)"
    and "dict_get d (ascii ''step'') = Some (PyStr (ascii ''output''))"
    and "dict_get d (ascii ''content'') = Some (PyStr C)"
  shows "process_chat (Suc n) E s =
           (Returned,
            s\<lparr>messages := messages s @
                [\<lparr>role = ascii ''assistant'', content = json_dumps E (PyDict d)\<rparr>],
              trace := trace s @
                [LLM_call (messages s),
                 St_markdown
                   ([10] @ ascii ''                    <div style='' @ [39] @
     ascii ''background-color:#F0F8FF;padding:15px;border-radius:10px;border-left:5px solid #6A5ACD;'' @
     [39] @ ascii ''>'' @ [10] @ ascii ''                        <strong>'' @ [129302] @
     ascii '' Final Answer:</strong><br>'' @ C @
     [10] @ ascii ''                    </div>'' @ [10] @ ascii ''                '')],
              world := w1\<rparr>)"
  using assms
  by (simp add: iteration_def handle_reply_def dispatch_def get_or_none_def emit_def
      append_message_def assistant_def final_answer_def ascii_def del: json_dumps.simps)

theorem output_step_witness:
  \<open>process_chat 2 (test_env replies)
     (user_asks (ascii ''weather?'') (llm_only [Inr output_reply, Inr output_reply])) =
   (Returned,
    \<lparr>messages = [\<lparr>role = ascii ''user'', content = ascii ''weather?''\<rparr>,
         \<lparr>role = ascii ''assistant'',
           content = ascii ''{"step": "output", "content": "It is sunny."}''\<rparr>],
     trace = [LLM_call [\<lparr>role = ascii ''user'', content = ascii ''weather?''\<rparr>],
         St_markdown
           ([10] @ ascii ''                    <div style='' @ [39] @
     ascii ''background-color:#F0F8FF;padding:15px;border-radius:10px;border-left:5px solid #6A5ACD;'' @
     [39] @ ascii ''>'' @ [10] @ ascii ''                        <strong>'' @ [129302] @
     ascii '' Final Answer:</strong><br>'' @ ascii ''It is sunny.'' @
     [10] @ ascii ''                    </div>'' @ [10] @ ascii ''                '')],
     world = llm_only [Inr output_reply]\<rparr>)\<close>
proof -
  let ?E = "test_env replies"
  let ?s = "user_asks (ascii ''weather?'') (llm_only [Inr output_reply, Inr output_reply])"
  have h1: "chat_completions_create ?E (messages ?s) (world ?s) =
              (Inr output_reply, llm_only [Inr output_reply])"
    by (simp add: test_env_def scripted_create_def user_asks_def llm_only_def)
  have h2: "json_loads ?E output_reply = Inr (PyDict output_parsed)"
    by (simp add: test_env_def table_scan_def parser_defs fixture_defs replies_def output_reply_def
        action_reply_def list_reply_def ascii_def)
  have h3: "dict_get output_parsed (ascii ''step'') = Some (PyStr (ascii ''output''))"
    by (simp add: dict_get_def output_parsed_def)
  have h4: "dict_get output_parsed (ascii ''content'') = Some (PyStr (ascii ''It is sunny.''))"
    by (simp add: dict_get_def output_parsed_def ascii_def)
  from output_step [OF h1 h2 h3 h4, of 1] show ?thesis
    by (simp add: user_asks_def numeral_2_eq_2 output_parsed_def encode_basestring_ascii_def
        escape_char_def ascii_def)
qed

text \<open>
  C9: when the reply parses to an object whose step is \<open>plan\<close> or \<open>output\<close> and that has
  no \<open>content\<close> key, the loop first appends the re-serialized object as an assistant
  message and then ends with an unhandled \<open>KeyError\<close> for \<open>content\<close>.
\<close>

theorem missing_content:
  assumes "chat_completions_create E (messages s) (world s) = (Inr reply, w1)"
    and "json_loads E reply = Inr (PyDict d)"
    and "dict_get d (ascii ''step'') = Some (PyStr (ascii ''plan''))
         \<or> dict_get d (ascii ''step'') = Some (PyStr (ascii ''output''))"
    and "dict_get d (ascii ''content'') = None"
  shows "process_chat (Suc n) E s =
           (Raised (KeyError (ascii ''content'')),
            s\<lparr>messages := messages s @
                [\<lparr>role = ascii ''assistant'', content = json_dumps E (PyDict d)\<rparr>],
              trace := trace s @ [LLM_call (messages s)],
              world := w1\<rparr>)"
  using assms
  by (auto simp add: iteration_def handle_reply_def dispatch_def get_or_none_def emit_def
      append_message_def assistant_def ascii_def simp del: json_dumps.simps)

theorem missing_content_witness:
  \<open>process_chat 2 (test_env replies)
     (user_asks (ascii ''weather?'') (llm_only [Inr plan_no_content_reply, Inr output_reply])) =
   (Raised (KeyError (ascii ''content'')),
    \<lparr>messages = [\<lparr>role = ascii ''user'', content = ascii ''weather?''\<rparr>,
         \<lparr>role = ascii ''assistant'', content = ascii ''{"step": "plan"}''\<rparr>],
     trace = [LLM_call [\<lparr>role = ascii ''user'', content = ascii ''weather?''\<rparr>]],
     world = llm_only [Inr output_reply]\<rparr>)\<close>
proof -
  let ?E = "test_env replies"
  let ?s = "user_asks (ascii ''weather?'') (llm_only [Inr plan_no_content_reply, Inr output_reply])"
  have h1: "chat_completions_create ?E (messages ?s) (world ?s) =
              (Inr plan_no_content_reply, llm_only [Inr output_reply])"
    by (simp add: test_env_def scripted_create_def user_asks_def llm_only_def)
  have h2: "json_loads ?E plan_no_content_reply = Inr (PyDict plan_no_content_parsed)"
    by (simp add: test_env_def table_scan_def parser_defs fixture_defs replies_def plan_no_content_reply_def
        unknown_tool_reply_def output_reply_def action_reply_def list_reply_def ascii_def)
  have h3: "dict_get plan_no_content_parsed (ascii ''step'') = Some (PyStr (ascii ''plan''))
            \<or> dict_get plan_no_content_parsed (ascii ''step'') = Some (PyStr (ascii ''output''))"
    by (simp add: dict_get_def plan_no_content_parsed_def)
  have h4: "dict_get plan_no_content_parsed (ascii ''content'') = None"
    by (simp add: dict_get_def plan_no_content_parsed_def ascii_def)
  from missing_content [OF h1 h2 h3 h4, of 1] show ?thesis
    by (simp add: user_asks_def numeral_2_eq_2 plan_no_content_parsed_def
        encode_basestring_ascii_def escape_char_def ascii_def)
qed

section \<open>The dialogue loop: the messages of a run\<close>










section \<open>json.loads after json.dumps\<close>

lemma hexval_hexdigit: "d < 16 \<Longrightarrow> hexval (hexdigit d) = Some d"
  by (auto simp: hexval_def hexdigit_def)

lemma hex4_value:
  assumes "n < 65536"
  shows "((n div 4096 mod 16 * 16 + n div 256 mod 16) * 16 + n div 16 mod 16) * 16 + n mod 16 = (n::nat)"
proof -
  have "n div 4096 < 16" using assms by (simp add: less_mult_imp_div_less)
  then have a: "n div 4096 mod 16 = n div 4096" by simp
  have b: "n div 4096 = n div 256 div 16" by (simp add: div_mult2_eq)
  have ab: "n div 4096 mod 16 = n div 256 div 16" using a b by simp
  have c: "n div 256 = n div 16 div 16" by (simp add: div_mult2_eq)
  have d1: "n div 256 div 16 * 16 + n div 256 mod 16 = n div 256" by (rule div_mult_mod_eq)
  have d2: "n div 16 div 16 * 16 + n div 16 mod 16 = n div 16" by (rule div_mult_mod_eq)
  have d3: "n div 16 * 16 + n mod 16 = n" by (rule div_mult_mod_eq)
  have "((n div 4096 mod 16 * 16 + n div 256 mod 16) * 16 + n div 16 mod 16) * 16 + n mod 16
      = ((n div 256 div 16 * 16 + n div 256 mod 16) * 16 + n div 16 mod 16) * 16 + n mod 16"
    by (simp only: ab)
  also have "\<dots> = (n div 256 * 16 + n div 16 mod 16) * 16 + n mod 16" by (simp only: d1)
  also have "\<dots> = (n div 16 div 16 * 16 + n div 16 mod 16) * 16 + n mod 16" by (simp only: c)
  also have "\<dots> = n div 16 * 16 + n mod 16" by (simp only: d2)
  also have "\<dots> = n" by (rule d3)
  finally show ?thesis .
qed

lemma decode_hex4: "n < 65536 \<Longrightarrow> decode_uXXXX (hex4 n @ rest) = Some n"
  using hex4_value [of n] by (simp add: hex4_def hexval_hexdigit)

lemma join_value:
  assumes "65536 \<le> c" "c < 1114112"
  shows "65536 + ((c - 65536) div 1024 mod 1024 * 1024 + (c - 65536) mod 1024) = (c::nat)"
proof -
  have "(c - 65536) div 1024 < 1024" using assms by (simp add: less_mult_imp_div_less)
  then have "(c - 65536) div 1024 mod 1024 = (c - 65536) div 1024" by simp
  moreover have "(c - 65536) div 1024 * 1024 + (c - 65536) mod 1024 = c - 65536"
    by (rule div_mult_mod_eq)
  ultimately show ?thesis using assms by simp
qed

lemma length_hex4 [simp]: "length (hex4 n) = 4"
  by (simp add: hex4_def)

lemma scan_short:
  "backslash e = Some c \<Longrightarrow> e \<noteq> 117 \<Longrightarrow> scanstring (92 # e # t) = prepend c (scanstring t)"
  by (simp add: scan_char_def)

lemma scan_plain:
  "32 \<le> c \<Longrightarrow> c \<noteq> 34 \<Longrightarrow> c \<noteq> 92 \<Longrightarrow> scanstring (c # t) = prepend c (scanstring t)"
  by (simp add: scan_char_def)

lemma scan_unit:
  assumes "n < 65536"
    and "high n \<Longrightarrow> take 2 t = [92, 117] \<Longrightarrow> \<exists>u. decode_uXXXX (drop 2 t) = Some u \<and> \<not> low u"
  shows "scanstring (92 # 117 # hex4 n @ t) = prepend n (scanstring t)"
proof (cases "high n \<and> take 2 t = [92, 117]")
  case True
  with assms(2) obtain u where "decode_uXXXX (drop 2 t) = Some u" "\<not> low u" by blast
  with True assms(1) show ?thesis
    by (auto simp add: scan_char_def decode_hex4 high_def low_def)
next
  case False
  with assms(1) show ?thesis
    by (auto simp add: scan_char_def decode_hex4 high_def)
qed

lemma scan_pair:
  assumes "65536 \<le> c" "c < 1114112"
  shows "scanstring (92 # 117 # hex4 (55296 + (c - 65536) div 1024 mod 1024) @
                     92 # 117 # hex4 (56320 + (c - 65536) mod 1024) @ t)
         = prepend c (scanstring t)"
proof -
  let ?h = "55296 + (c - 65536) div 1024 mod 1024"
  let ?l = "56320 + (c - 65536) mod 1024"
  have h: "?h < 65536" "55296 \<le> ?h" "?h \<le> 56319"
    using mod_less_divisor [of 1024 "(c - 65536) div 1024"] by simp_all
  have l: "?l < 65536" "56320 \<le> ?l" "?l \<le> 57343"
    using mod_less_divisor [of 1024 "c - 65536"] by simp_all
  have d1: "decode_uXXXX (hex4 ?h @ 92 # 117 # hex4 ?l @ t) = Some ?h"
    by (rule decode_hex4 [OF h(1)])
  have d2: "decode_uXXXX (hex4 ?l @ t) = Some ?l"
    by (rule decode_hex4 [OF l(1)])
  have v: "65536 + ((?h - 55296) * 1024 + (?l - 56320)) = c"
    using join_value [OF assms] by simp
  have dr: "drop 11 (117 # hex4 ?h @ 92 # 117 # hex4 ?l @ t) = t"
    by simp
  have sc: "scan_char 92 (117 # hex4 ?h @ 92 # 117 # hex4 ?l @ t) = Inr (c, 11)"
    unfolding scan_char_def using d1 d2 h l v by simp
  show ?thesis using sc dr by simp
qed

lemma scan_escape:
  assumes "c < 1114112"
    and la: "high c \<Longrightarrow> take 2 t = [92, 117] \<Longrightarrow>
             \<exists>u. decode_uXXXX (drop 2 t) = Some u \<and> \<not> low u"
  shows "scanstring (escape_char c @ t) = prepend c (scanstring t)"
proof -
  consider (short) "c = 92 \<or> c = 34 \<or> c = 8 \<or> c = 12 \<or> c = 10 \<or> c = 13 \<or> c = 9"
    | (plain) "32 \<le> c" "c \<le> 126" "c \<noteq> 34" "c \<noteq> 92"
    | (unit) "c \<noteq> 92" "c \<noteq> 34" "c \<noteq> 8" "c \<noteq> 12" "c \<noteq> 10" "c \<noteq> 13" "c \<noteq> 9"
        "\<not> (32 \<le> c \<and> c \<le> 126)" "c < 65536"
    | (pair) "65536 \<le> c"
    by linarith
  then show ?thesis
  proof cases
    case short
    then show ?thesis
      by (auto simp: escape_char_def scan_char_def backslash_def)
  next
    case plain
    then show ?thesis
      by (simp add: escape_char_def scan_char_def)
  next
    case unit
    then have "escape_char c = 92 # 117 # hex4 c" by (simp add: escape_char_def)
    with scan_unit [OF unit(9) la] show ?thesis by simp
  next
    case pair
    then have "escape_char c = 92 # 117 # hex4 (55296 + (c - 65536) div 1024 mod 1024) @
                     92 # 117 # hex4 (56320 + (c - 65536) mod 1024)"
      by (simp add: escape_char_def)
    with scan_pair [OF pair assms(1)] show ?thesis by simp
  qed
qed

lemma lookahead:
  assumes "c < 1114112" and "take 2 (escape_char c @ t) = [92, 117]"
  shows "decode_uXXXX (drop 2 (escape_char c @ t)) = Some (first_unit c)"
proof (cases "c < 65536")
  case True
  with assms(2) have "escape_char c = 92 # 117 # hex4 c"
    by (auto simp: escape_char_def split: if_splits)
  with True show ?thesis by (simp add: decode_hex4 first_unit_def)
next
  case False
  let ?h = "55296 + (c - 65536) div 1024 mod 1024"
  have "?h < 65536" using mod_less_divisor [of 1024 "(c - 65536) div 1024"] by simp
  from decode_hex4 [OF this] False show ?thesis
    by (simp add: escape_char_def first_unit_def)
qed

lemma first_unit_not_low: "\<not> low c \<Longrightarrow> \<not> low (first_unit c)"
  using mod_less_divisor [of 1024 "(c - 65536) div 1024"]
  by (auto simp: first_unit_def low_def)

lemma scanstring_encoded:
  assumes "\<forall>c\<in>set s. c < 1114112" and "no_pair s"
  shows "scanstring (concat (map escape_char s) @ 34 # rest) = Inr (s, rest)"
  using assms
proof (induction s)
  case Nil
  then show ?case by simp
next
  case (Cons c s)
  let ?t = "concat (map escape_char s) @ 34 # rest"
  have la: "\<exists>u. decode_uXXXX (drop 2 ?t) = Some u \<and> \<not> low u"
    if "high c" "take 2 ?t = [92, 117]"
  proof (cases s)
    case Nil
    with that show ?thesis by simp
  next
    case (Cons d s')
    with Cons.prems that(1) have d: "d < 1114112" "\<not> low d" by auto
    from that(2) Cons have "take 2 (escape_char d @ concat (map escape_char s') @ 34 # rest) = [92, 117]"
      by simp
    from lookahead [OF d(1) this] first_unit_not_low [OF d(2)] Cons show ?thesis by simp
  qed
  have np: "no_pair s" using Cons.prems(2) by (cases s) simp_all
  have "scanstring (escape_char c @ ?t) = prepend c (scanstring ?t)"
    using Cons.prems(1) la by (intro scan_escape) simp_all
  with Cons.IH np Cons.prems(1) show ?case by (simp add: prepend_def)
qed

lemma skip_ws_simps [simp]:
  "skip_ws [] = []" "skip_ws (32 # xs) = skip_ws xs" "skip_ws (58 # xs) = 58 # xs"
  "skip_ws (34 # xs) = 34 # xs" "skip_ws (125 # xs) = 125 # xs" "skip_ws (44 # xs) = 44 # xs"
  "skip_ws (123 # xs) = 123 # xs"
  by (simp_all add: skip_ws_def is_ws_def)

lemma member_encoded:
  assumes "wf_str k" "wf_str v"
  shows "member other (concat (map escape_char k) @ 34 # 58 # 32 # 34 #
                        concat (map escape_char v) @ 34 # rest) = Inr ((k, PyStr v), rest)"
  using assms
  by (simp add: member_def scan_value_def scanstring_encoded wf_str_def)

lemma dict_set_new: "k \<notin> fst ` set acc \<Longrightarrow> dict_set acc k v = acc @ [(k, v)]"
  by (induction acc) auto

lemma members_encoded:
  assumes "sd \<noteq> []" "distinct (map fst sd)" "\<forall>(k, v)\<in>set sd. wf_str k \<and> wf_str v"
    and "fst ` set acc \<inter> fst ` set sd = {}"
  shows "members other (body sd rest) acc = Inr (PyDict (acc @ strings sd), rest)"
  using assms
proof (induction sd rest arbitrary: acc rule: body.induct)
  case (1 rest)
  then show ?case by simp
next
  case (2 k v rest)
  then have wf: "wf_str k" "wf_str v" and new: "k \<notin> fst ` set acc" by auto
  show ?case
    by (subst members.simps) (simp add: member_encoded [OF wf] dict_set_new [OF new] strings_def)
next
  case (3 k v p ps rest)
  then have wf: "wf_str k" "wf_str v" and new: "k \<notin> fst ` set acc" by auto
  have "members other (body (p # ps) rest) (acc @ [(k, PyStr v)])
        = Inr (PyDict ((acc @ [(k, PyStr v)]) @ strings (p # ps)), rest)"
    using "3.prems" by (intro "3.IH") auto
  then show ?case
    by (subst members.simps) (simp add: member_encoded [OF wf] dict_set_new [OF new] strings_def)
qed

lemma dumps_body:
  "sd \<noteq> [] \<Longrightarrow>
   join (ascii '', '')
     (map (\<lambda>(k, v). encode_basestring_ascii k @ ascii '': '' @ json_dumps E v) (strings sd)) @
   125 # rest = 34 # body sd rest"
  by (induction sd rest rule: body.induct)
    (simp_all add: strings_def encode_basestring_ascii_def ascii_def)

lemma loads_dumps:
  assumes "distinct (map fst sd)" and "\<forall>(k, v)\<in>set sd. wf_str k \<and> wf_str v"
  shows "loads other (json_dumps E (PyDict (strings sd))) = Inr (PyDict (strings sd))"
proof (cases "sd = []")
  case True
  then show ?thesis
    by (simp add: loads_def scan_once_def JSONObject_def strings_def ascii_def)
next
  case False
  have dumped: "json_dumps E (PyDict (strings sd)) = 123 # 34 # body sd []"
    using dumps_body [OF False, of E "[]"] by (simp add: ascii_def)
  have "members other (body sd []) [] = Inr (PyDict ([] @ strings sd), [])"
    using False assms by (intro members_encoded) auto
  then have "JSONObject other (34 # body sd []) = Inr (PyDict (strings sd), [])"
    by (simp add: JSONObject_def del: members.simps)
  then show ?thesis
    unfolding dumped by (simp add: loads_def scan_once_def)
qed

text \<open>
  C10, as stated, fails: the observe Step whose content is a high surrogate followed by a
  low surrogate is serialized with two escapes, which the parser reads back as the one
  character they encode together.
\<close>

theorem round_trip_counterexample:
  "is_step (observe_step [55357, 56832]) \<and>
   json_loads (test_env replies) (json_dumps (test_env replies) (observe_step [55357, 56832]))
     = Inr (observe_step [128512]) \<and>
   subscript (observe_step [128512]) (ascii ''content'')
     \<noteq> subscript (observe_step [55357, 56832]) (ascii ''content'')"
  by (simp add: observe_step_def encode_basestring_ascii_def escape_char_def hex4_def hexdigit_def
      dict_get_def ascii_def test_env_def json_loads_def loads_def scan_once_def JSONObject_def
      member_def scan_value_def scan_char_def backslash_def hexval_def prepend_def skip_ws_def
      is_ws_def)

text \<open>
  C10 (amended): for every Step, and more generally every object whose keys are distinct and
  whose values are strings, whose strings hold no high surrogate immediately followed by a
  low surrogate, serializing it with \<open>json.dumps\<close> and parsing the result with
  \<open>json.loads\<close> yields the same object, hence identical step, content, function and input.
\<close>

theorem step_round_trip:
  assumes "distinct (map fst sd)" and "\<forall>(k, v)\<in>set sd. wf_str k \<and> wf_str v"
  shows "json_loads E (json_dumps E (PyDict (strings sd))) = Inr (PyDict (strings sd))"
  unfolding json_loads_def using assms by (rule loads_dumps)

theorem step_round_trip_witness:
  "json_loads (test_env replies) (json_dumps (test_env replies) (observe_step (weather_ok Lahore sunny)))
     = Inr (observe_step (weather_ok Lahore sunny))"
proof -
  let ?sd = "[(ascii ''step'', ascii ''observe''), (ascii ''content'', weather_ok Lahore sunny)]"
  have h1: "distinct (map fst ?sd)" by (simp add: ascii_def)
  have h2: "\<forall>(k, v)\<in>set ?sd. wf_str k \<and> wf_str v"
    by (simp add: wf_str_def weather_ok_def Lahore_def sunny_def ascii_def high_def low_def)
  have "strings ?sd = [(ascii ''step'', PyStr (ascii ''observe'')),
                       (ascii ''content'', PyStr (weather_ok Lahore sunny))]"
    by (simp add: strings_def)
  with step_round_trip [OF h1 h2, of "test_env replies"] show ?thesis
    by (simp add: observe_step_def)
qed

end
